theory Spec2Isabelle
  imports Main
begin

section \<open>The styled console logger of \<open>src/logger.js\<close>\<close>

text \<open>
  The module exports one factory, \<open>createLogger\<close>. The logger it returns closes over
  four constants (\<open>showTimestamp\<close>, \<open>namespace\<close>, \<open>mergedStyles\<close>, \<open>minLevel\<close>) and
  two mutable variables (\<open>isEnabled\<close>, \<open>hooks\<close>). Everything the logger does beyond
  returning is a call on the console, on the clock, on a hook or on the callback of
  \<open>group\<close>; the embedding makes these calls explicit: every operation takes the
  mutable state and returns its completion (normal or thrown), the list of events it
  caused, in order, and the new state.
\<close>

subsection \<open>Levels and styles\<close>

datatype LogLevel = Debug | Log | Info | Warn | Error | Success

text \<open>The property keys of the six levels, as the source spells them.\<close>

fun levelKey :: "LogLevel \<Rightarrow> string" where
  "levelKey Debug = ''debug''"
| "levelKey Log = ''log''"
| "levelKey Info = ''info''"
| "levelKey Warn = ''warn''"
| "levelKey Error = ''error''"
| "levelKey Success = ''success''"

definition allLevels :: "LogLevel list" where
  "allLevels = [Debug, Log, Info, Warn, Error, Success]"

text \<open>\<open>LOG_LEVELS\<close>: the frozen table of severity ranks.\<close>

fun LOG_LEVELS :: "LogLevel \<Rightarrow> nat" where
  "LOG_LEVELS Debug = 0"
| "LOG_LEVELS Log = 1"
| "LOG_LEVELS Info = 2"
| "LOG_LEVELS Warn = 3"
| "LOG_LEVELS Error = 4"
| "LOG_LEVELS Success = 5"

text \<open>
  \<open>LOG_LEVELS[level]\<close> for a key given as a string: the rank of the level with that
  key, \<open>None\<close> (undefined) for any other key. The option \<open>level\<close> is declared a
  \<open>LogLevel\<close>; keys that name a property inherited from \<open>Object.prototype\<close> are
  outside the model.
\<close>

definition levelOfKey :: "string \<Rightarrow> LogLevel option" where
  "levelOfKey k = find (\<lambda>l. levelKey l = k) allLevels"

definition lookupRank :: "string \<Rightarrow> nat option" where
  "lookupRank k = map_option LOG_LEVELS (levelOfKey k)"

type_synonym LoggerStyleMap = "LogLevel \<rightharpoonup> string"

text \<open>\<open>DEFAULT_STYLES\<close>: one style token for each level.\<close>

fun defaultStyle :: "LogLevel \<Rightarrow> string" where
  "defaultStyle Debug = ''color: #6272a4;''"
| "defaultStyle Log = ''color: #f8f8f2;''"
| "defaultStyle Info = ''color: #8be9fd; font-weight: bold;''"
| "defaultStyle Warn = ''color: #f1fa8c; font-weight: bold;''"
| "defaultStyle Error = ''color: #ff5555; font-weight: bold;''"
| "defaultStyle Success = ''color: #50fa7b; font-weight: bold;''"

definition DEFAULT_STYLES :: LoggerStyleMap where
  "DEFAULT_STYLES = (\<lambda>l. Some (defaultStyle l))"

text \<open>
  The object spread \<open>{ ...DEFAULT_STYLES, ...styles }\<close>: the entries of the right
  operand win, which is what \<open>++\<close> does on maps.
\<close>

definition mergeStyles :: "LoggerStyleMap \<Rightarrow> LoggerStyleMap" where
  "mergeStyles styles = DEFAULT_STYLES ++ styles"

subsection \<open>Strings\<close>

text \<open>\<open>String.prototype.toUpperCase\<close> on ASCII text, and \<open>Array.prototype.join\<close>.\<close>

definition upperChar :: "char \<Rightarrow> char" where
  "upperChar c =
     (let n = (of_char c :: nat)
      in if 97 \<le> n \<and> n \<le> 122 then char_of (n - 32) else c)"

definition toUpperCase :: "string \<Rightarrow> string" where
  "toUpperCase s = map upperChar s"

fun join :: "string \<Rightarrow> string list \<Rightarrow> string" where
  "join sep [] = []"
| "join sep [p] = p"
| "join sep (p # q # ps) = p @ sep @ join sep (q # ps)"

definition bracket :: "string \<Rightarrow> string" where
  "bracket s = ''['' @ s @ '']''"

subsection \<open>The hook registry: an insertion-ordered set\<close>

text \<open>
  A JavaScript \<open>Set\<close> keeps each member once and iterates in insertion order. Its
  members here are callbacks, compared by reference: a hook is named by its reference.
\<close>

type_synonym hook_ref = nat

typedef 'a js_set = "{xs :: 'a list. distinct xs}"
  by (rule exI [of _ "[]"]) simp

setup_lifting type_definition_js_set

lift_definition setValues :: "'a js_set \<Rightarrow> 'a list" is "\<lambda>xs. xs" .

lift_definition emptySet :: "'a js_set" is "[]"
  by simp

lift_definition setAdd :: "'a \<Rightarrow> 'a js_set \<Rightarrow> 'a js_set"
  is "\<lambda>x xs. if x \<in> set xs then xs else xs @ [x]"
  by simp

lift_definition setDelete :: "'a \<Rightarrow> 'a js_set \<Rightarrow> 'a js_set"
  is "\<lambda>x xs. filter (\<lambda>y. y \<noteq> x) xs"
  by simp

definition setHas :: "'a \<Rightarrow> 'a js_set \<Rightarrow> bool" where
  "setHas x s = (x \<in> set (setValues s))"

subsection \<open>Records, events and the environment\<close>

type_synonym Date = int

record 'v LogMeta =
  timestamp :: Date
  namespace :: "string option"
  level :: LogLevel
  args :: "'v list"

text \<open>
  The calls the logger makes, as events. \<open>CallbackRun evs\<close> is one invocation of the
  callback of \<open>group\<close>, with the events that invocation caused inside it.
\<close>

datatype 'v event =
    ConsoleLog string "string option" "'v list"
  | ConsoleWarn string 'v
  | ConsoleGroupCollapsed string string
  | ConsoleGroupEnd
  | HookCall hook_ref LogLevel "'v LogMeta"
  | CallbackRun "'v event list"

text \<open>
  What the logger cannot see into: the clock (\<open>dateAt n\<close> is what the \<open>n\<close>-th
  \<open>new Date()\<close> of the run returns), the locale's time formatter, and the hooks, which
  are called with a level and a record and either return (\<open>None\<close>) or throw a value.
  Hooks are observers: one that calls back into the logger is outside the model.
\<close>

record 'v Env =
  dateAt :: "nat \<Rightarrow> Date"
  formatTime :: "Date \<Rightarrow> string"
  runHook :: "hook_ref \<Rightarrow> LogLevel \<Rightarrow> 'v LogMeta \<Rightarrow> 'v option"

text \<open>The constants of the closure, and its variables together with the clock.\<close>

record Logger =
  c_showTimestamp :: bool
  c_namespace :: "string option"
  c_mergedStyles :: LoggerStyleMap
  c_minLevel :: nat

record State =
  isEnabled :: bool
  hooks :: "hook_ref js_set"
  clock :: nat

type_synonym ('a, 'v) outcome = "('v + 'a) \<times> 'v event list \<times> State"

subsection \<open>Formatting\<close>

definition newDate :: "'v Env \<Rightarrow> State \<Rightarrow> Date \<times> State" where
  "newDate env s = (dateAt env (clock s), s\<lparr>clock := Suc (clock s)\<rparr>)"

definition getTimestamp :: "'v Env \<Rightarrow> State \<Rightarrow> string \<times> State" where
  "getTimestamp env s =
     (case newDate env s of (d, s') \<Rightarrow> (bracket (formatTime env d), s'))"

text \<open>
  The two conditional pushes that \<open>printStyledLog\<close> and \<open>group\<close> share:
  \<open>if (showTimestamp) parts.push(getTimestamp())\<close> and
  \<open>if (namespace) parts.push(`[${namespace}]`)\<close>. A string is truthy when it is not
  empty; \<open>undefined\<close> is falsy.
\<close>

definition timestampPart :: "'v Env \<Rightarrow> bool \<Rightarrow> State \<Rightarrow> string list \<times> State" where
  "timestampPart env showTs s =
     (if showTs then (case getTimestamp env s of (t, s') \<Rightarrow> ([t], s')) else ([], s))"

fun namespacePart :: "string option \<Rightarrow> string list" where
  "namespacePart None = []"
| "namespacePart (Some n) = (if n = [] then [] else [bracket n])"

definition printStyledLog ::
  "'v Env \<Rightarrow> LogLevel \<Rightarrow> string option \<Rightarrow> bool \<Rightarrow> string option \<Rightarrow> 'v list \<Rightarrow> State
     \<Rightarrow> (unit, 'v) outcome" where
  "printStyledLog env lvl style showTs ns as s =
     (case timestampPart env showTs s of
        (ts, s') \<Rightarrow>
          (let parts = ts @ namespacePart ns @ [bracket (toUpperCase (levelKey lvl))];
               prefix = ''%c'' @ join '' '' parts
           in (Inr (), [ConsoleLog prefix style as], s')))"

subsection \<open>Emitting\<close>

text \<open>
  A call of a hook: the call is an event, and it completes normally or throws.
\<close>

definition callHook ::
  "'v Env \<Rightarrow> hook_ref \<Rightarrow> LogLevel \<Rightarrow> 'v LogMeta \<Rightarrow> State \<Rightarrow> (unit, 'v) outcome" where
  "callHook env h lvl meta s =
     (case runHook env h lvl meta of
        None \<Rightarrow> (Inr (), [HookCall h lvl meta], s)
      | Some e \<Rightarrow> (Inl e, [HookCall h lvl meta], s))"

text \<open>
  The body of the loop of \<open>emit\<close>:
  \<open>try { hook(level, { timestamp: new Date(), namespace, level, args }) }
    catch (e) { console.warn('[Logger] Hook error:', e) }\<close>.
\<close>

definition tryHook ::
  "'v Env \<Rightarrow> Logger \<Rightarrow> LogLevel \<Rightarrow> 'v list \<Rightarrow> hook_ref \<Rightarrow> State \<Rightarrow> (unit, 'v) outcome" where
  "tryHook env L lvl as h s =
     (case newDate env s of
        (d, s1) \<Rightarrow>
          (let meta = \<lparr>timestamp = d, namespace = c_namespace L, level = lvl, args = as\<rparr>
           in case callHook env h lvl meta s1 of
                (Inr u, evs, s2) \<Rightarrow> (Inr (), evs, s2)
              | (Inl e, evs, s2) \<Rightarrow>
                  (Inr (), evs @ [ConsoleWarn ''[Logger] Hook error:'' e], s2)))"

text \<open>
  \<open>for (const hook of hooks) { ... }\<close>: an exception that left the body would end
  the loop and leave \<open>emit\<close>.
\<close>

fun forEachHook ::
  "'v Env \<Rightarrow> Logger \<Rightarrow> LogLevel \<Rightarrow> 'v list \<Rightarrow> hook_ref list \<Rightarrow> State \<Rightarrow> (unit, 'v) outcome" where
  "forEachHook env L lvl as [] s = (Inr (), [], s)"
| "forEachHook env L lvl as (h # hs) s =
     (case tryHook env L lvl as h s of
        (Inl e, evs, s1) \<Rightarrow> (Inl e, evs, s1)
      | (Inr u, evs, s1) \<Rightarrow>
          (case forEachHook env L lvl as hs s1 of
             (r, evs', s2) \<Rightarrow> (r, evs @ evs', s2)))"

definition emit ::
  "'v Env \<Rightarrow> Logger \<Rightarrow> LogLevel \<Rightarrow> 'v list \<Rightarrow> State \<Rightarrow> (unit, 'v) outcome" where
  "emit env L lvl as s =
     (if \<not> isEnabled s \<or> LOG_LEVELS lvl < c_minLevel L then (Inr (), [], s)
      else
        (case printStyledLog env lvl (c_mergedStyles L lvl) (c_showTimestamp L)
                (c_namespace L) as s of
           (Inl e, evs, s1) \<Rightarrow> (Inl e, evs, s1)
         | (Inr u, evs, s1) \<Rightarrow>
             (case forEachHook env L lvl as (setValues (hooks s1)) s1 of
                (r, evs', s2) \<Rightarrow> (r, evs @ evs', s2))))"

text \<open>The six emit functions of the returned object, and the one of a given level.\<close>

definition debug :: "'v Env \<Rightarrow> Logger \<Rightarrow> 'v list \<Rightarrow> State \<Rightarrow> (unit, 'v) outcome" where
  "debug env L as s = emit env L Debug as s"

definition log :: "'v Env \<Rightarrow> Logger \<Rightarrow> 'v list \<Rightarrow> State \<Rightarrow> (unit, 'v) outcome" where
  "log env L as s = emit env L Log as s"

definition info :: "'v Env \<Rightarrow> Logger \<Rightarrow> 'v list \<Rightarrow> State \<Rightarrow> (unit, 'v) outcome" where
  "info env L as s = emit env L Info as s"

definition warn :: "'v Env \<Rightarrow> Logger \<Rightarrow> 'v list \<Rightarrow> State \<Rightarrow> (unit, 'v) outcome" where
  "warn env L as s = emit env L Warn as s"

definition error :: "'v Env \<Rightarrow> Logger \<Rightarrow> 'v list \<Rightarrow> State \<Rightarrow> (unit, 'v) outcome" where
  "error env L as s = emit env L Error as s"

definition success :: "'v Env \<Rightarrow> Logger \<Rightarrow> 'v list \<Rightarrow> State \<Rightarrow> (unit, 'v) outcome" where
  "success env L as s = emit env L Success as s"

fun emitFunction ::
  "LogLevel \<Rightarrow> 'v Env \<Rightarrow> Logger \<Rightarrow> 'v list \<Rightarrow> State \<Rightarrow> (unit, 'v) outcome" where
  "emitFunction Debug = debug"
| "emitFunction Log = log"
| "emitFunction Info = info"
| "emitFunction Warn = warn"
| "emitFunction Error = error"
| "emitFunction Success = success"

subsection \<open>The toggle and the hook registry\<close>

text \<open>\<open>setEnabled(value)\<close> stores \<open>Boolean(value)\<close>; the argument here is that boolean.\<close>

definition setEnabled :: "bool \<Rightarrow> State \<Rightarrow> State" where
  "setEnabled v s = s\<lparr>isEnabled := v\<rparr>"

text \<open>
  \<open>onLog(callback)\<close> adds the callback and returns \<open>() => hooks.delete(callback)\<close>,
  a function of the state at the time it is called; \<open>Set.prototype.delete\<close> answers
  whether the member was there.
\<close>

definition unsubscribe :: "hook_ref \<Rightarrow> State \<Rightarrow> bool \<times> State" where
  "unsubscribe h s = (setHas h (hooks s), s\<lparr>hooks := setDelete h (hooks s)\<rparr>)"

definition onLog :: "hook_ref \<Rightarrow> State \<Rightarrow> (State \<Rightarrow> bool \<times> State) \<times> State" where
  "onLog h s = (unsubscribe h, s\<lparr>hooks := setAdd h (hooks s)\<rparr>)"

subsection \<open>Groups\<close>

text \<open>
  What the callback of \<open>group\<close> can return. A deferred computation is named by a
  number; it is still pending when the callback returns. \<open>Native d\<close> is a \<open>Promise\<close>
  for the computation \<open>d\<close>, and \<open>Finally p f\<close> is the promise \<open>p.finally(f)\<close>, where the
  function \<open>f\<close> is given by the events one run of it causes. A \<open>Thenable\<close> is an object
  with a \<open>then\<close> method that is not an instance of \<open>Promise\<close>.
\<close>

datatype 'v promise = Native nat | Finally "'v promise" "'v event list"

datatype 'v js_result = Immediate 'v | PromiseInstance "'v promise" | Thenable nat

fun instanceofPromise :: "'v js_result \<Rightarrow> bool" where
  "instanceofPromise (PromiseInstance p) = True"
| "instanceofPromise (Immediate v) = False"
| "instanceofPromise (Thenable d) = False"

fun isDeferred :: "'v js_result \<Rightarrow> bool" where
  "isDeferred (PromiseInstance p) = True"
| "isDeferred (Thenable d) = True"
| "isDeferred (Immediate v) = False"

text \<open>
  \<open>settle p out\<close>: what follows when the computation under \<open>p\<close> settles with \<open>out\<close>:
  the events of the reactions registered along \<open>p\<close>, the innermost first, and the
  outcome \<open>p\<close> itself settles with. \<open>Promise.prototype.finally\<close> runs its function and,
  when that returns, passes the outcome on; the functions here only call the console.
\<close>

datatype 'v settlement = Fulfilled 'v | Rejected 'v

fun settle :: "'v promise \<Rightarrow> 'v settlement \<Rightarrow> 'v event list \<times> 'v settlement" where
  "settle (Native d) out = ([], out)"
| "settle (Finally p f) out = (case settle p out of (evs, out') \<Rightarrow> (evs @ f, out'))"

definition shouldRender :: "Logger \<Rightarrow> State \<Rightarrow> bool" where
  "shouldRender L s = (isEnabled s \<and> LOG_LEVELS Log \<ge> c_minLevel L)"

text \<open>\<open>if (shouldRender) console.groupEnd()\<close>, which stands three times in \<open>group\<close>.\<close>

definition groupEndIf :: "bool \<Rightarrow> 'v event list" where
  "groupEndIf render = (if render then [ConsoleGroupEnd] else [])"

definition groupTitle :: "'v Env \<Rightarrow> Logger \<Rightarrow> string \<Rightarrow> State \<Rightarrow> string \<times> State" where
  "groupTitle env L title s =
     (case timestampPart env (c_showTimestamp L) s of
        (ts, s') \<Rightarrow>
          (let parts = ts @ namespacePart (c_namespace L) @ [''[GROUP] '' @ title]
           in (''%c'' @ join '' '' parts, s')))"

text \<open>
  \<open>group(title, callback)\<close>. The callback runs on the state the logger has after the
  title is composed. The test \<open>result instanceof Promise\<close> is the match on
  \<open>PromiseInstance\<close>; every other result, a \<open>Thenable\<close> too, takes the path of an
  immediate value.
\<close>

definition logger_group ::
  "'v Env \<Rightarrow> Logger \<Rightarrow> string \<Rightarrow> (State \<Rightarrow> ('v js_result, 'v) outcome) \<Rightarrow> State
     \<Rightarrow> ('v js_result, 'v) outcome" where
  "logger_group env L title callback s =
     (let render = shouldRender L s
      in case groupTitle env L title s of
           (header, s1) \<Rightarrow>
             (let opened =
                    (if render
                     then [ConsoleGroupCollapsed header ''font-weight: bold; color: #888;'']
                     else [])
              in case callback s1 of
                   (Inl err, evs, s2) \<Rightarrow>
                     (Inl err, opened @ [CallbackRun evs] @ groupEndIf render, s2)
                 | (Inr result, evs, s2) \<Rightarrow>
                     (case result of
                        PromiseInstance p \<Rightarrow>
                          (Inr (PromiseInstance (Finally p (groupEndIf render))),
                           opened @ [CallbackRun evs], s2)
                      | _ \<Rightarrow>
                          (Inr result, opened @ [CallbackRun evs] @ groupEndIf render, s2))))"

subsection \<open>The factory\<close>

text \<open>
  The options object: an absent property is \<open>None\<close>. The second argument of
  \<open>createLogger\<close> is the clock of the run it is called in.
\<close>

record LoggerOptions =
  o_showTimestamp :: "bool option"
  o_namespace :: "string option"
  o_styles :: "LoggerStyleMap option"
  o_level :: "string option"

definition createLogger :: "LoggerOptions \<Rightarrow> nat \<Rightarrow> Logger \<times> State" where
  "createLogger options clk =
     (let showTs = (case o_showTimestamp options of None \<Rightarrow> False | Some b \<Rightarrow> b);
          ns = o_namespace options;
          styles = (case o_styles options of None \<Rightarrow> Map.empty | Some m \<Rightarrow> m);
          lvl = (case o_level options of None \<Rightarrow> ''debug'' | Some k \<Rightarrow> k);
          merged = mergeStyles styles;
          minLvl = (case lookupRank lvl of None \<Rightarrow> 0 | Some n \<Rightarrow> n)
      in (\<lparr>c_showTimestamp = showTs, c_namespace = ns, c_mergedStyles = merged,
           c_minLevel = minLvl\<rparr>,
          \<lparr>isEnabled = True, hooks = emptySet, clock = clk\<rparr>))"

subsection \<open>Reading a list of events\<close>

fun isConsoleLog :: "'v event \<Rightarrow> bool" where
  "isConsoleLog (ConsoleLog p st as) = True"
| "isConsoleLog e = False"

fun isGroupCollapsed :: "'v event \<Rightarrow> bool" where
  "isGroupCollapsed (ConsoleGroupCollapsed t st) = True"
| "isGroupCollapsed e = False"

fun isGroupEnd :: "'v event \<Rightarrow> bool" where
  "isGroupEnd ConsoleGroupEnd = True"
| "isGroupEnd e = False"

fun isCallbackRun :: "'v event \<Rightarrow> bool" where
  "isCallbackRun (CallbackRun evs) = True"
| "isCallbackRun e = False"

text \<open>The hook calls among the events, each with its arguments, in order.\<close>

fun hookCallOf :: "'v event \<Rightarrow> (hook_ref \<times> LogLevel \<times> 'v LogMeta) option" where
  "hookCallOf (HookCall h l m) = Some (h, l, m)"
| "hookCallOf e = None"

definition hookCalls :: "'v event list \<Rightarrow> (hook_ref \<times> LogLevel \<times> 'v LogMeta) list" where
  "hookCalls evs = List.map_filter hookCallOf evs"

text \<open>The values reported by \<open>console.warn\<close>, in order.\<close>

fun warnedValue :: "'v event \<Rightarrow> 'v option" where
  "warnedValue (ConsoleWarn msg e) = Some e"
| "warnedValue e = None"

definition warnings :: "'v event list \<Rightarrow> 'v list" where
  "warnings evs = List.map_filter warnedValue evs"



text \<open>The events of one pass through the loop of \<open>emit\<close>, at clock \<open>n\<close>.\<close>

definition hookEvents ::
  "'v Env \<Rightarrow> Logger \<Rightarrow> LogLevel \<Rightarrow> 'v list \<Rightarrow> hook_ref \<Rightarrow> nat \<Rightarrow> 'v event list" where
  "hookEvents env L lvl as h n =
     (let meta = \<lparr>timestamp = dateAt env n, namespace = c_namespace L, level = lvl, args = as\<rparr>
      in HookCall h lvl meta
           # (case runHook env h lvl meta of
                None \<Rightarrow> []
              | Some e \<Rightarrow> [ConsoleWarn ''[Logger] Hook error:'' e]))"

subsection \<open>Reading the outcome of a group\<close>

text \<open>
  The \<open>console.groupEnd\<close> calls a group call answers for: those it made before it
  returned or threw, or, when it returned a promise, those of the function it passed
  to \<open>finally\<close>.
\<close>

fun deferredClose :: "'v promise \<Rightarrow> 'v event list" where
  "deferredClose (Finally p f) = f"
| "deferredClose (Native d) = []"

definition closeCalls :: "('v + 'v js_result) \<Rightarrow> 'v event list \<Rightarrow> 'v event list" where
  "closeCalls r evs =
     (case r of
        Inr (PromiseInstance p) \<Rightarrow> deferredClose p
      | _ \<Rightarrow> filter isGroupEnd evs)"

subsection \<open>A concrete run\<close>

text \<open>
  A logger with timestamps, the namespace \<open>app\<close>, one overridden style and the minimum
  level \<open>info\<close>; three hooks, registered in the order 0, 1, 2, of which hook 1 throws.
\<close>

definition exampleEnv :: "string Env" where
  "exampleEnv =
     \<lparr>dateAt = (\<lambda>n. 1000 * int n),
      formatTime = (\<lambda>d. ''12:00:00''),
      runHook = (\<lambda>h l m. if h = 1 then Some ''boom'' else None)\<rparr>"

definition exampleOptions :: LoggerOptions where
  "exampleOptions =
     \<lparr>o_showTimestamp = Some True, o_namespace = Some ''app'',
      o_styles = Some [Error \<mapsto> ''color: red;''], o_level = Some ''info''\<rparr>"

definition exampleLogger :: Logger where
  "exampleLogger = fst (createLogger exampleOptions 0)"

definition exampleState :: State where
  "exampleState =
     snd (onLog 2 (snd (onLog 1 (snd (onLog 0 (snd (createLogger exampleOptions 0)))))))"

text \<open>
  The logger of \<open>createLogger({})\<close>, and three callbacks for \<open>group\<close>: one that logs
  an error, disables the logger and throws; one that returns a promise for the
  computation 7; one that returns a thenable for it that is not a promise.
\<close>

definition defaultOptions :: LoggerOptions where
  "defaultOptions =
     \<lparr>o_showTimestamp = None, o_namespace = None, o_styles = None, o_level = None\<rparr>"

definition defaultLogger :: Logger where
  "defaultLogger = fst (createLogger defaultOptions 0)"

definition defaultState :: State where
  "defaultState = snd (createLogger defaultOptions 0)"

definition failingCallback :: "Logger \<Rightarrow> State \<Rightarrow> (string js_result, string) outcome" where
  "failingCallback L s =
     (case error exampleEnv L [''inside''] s of
        (r, evs, s1) \<Rightarrow> (Inl ''fail'', evs, setEnabled False s1))"

definition promiseCallback :: "State \<Rightarrow> (string js_result, string) outcome" where
  "promiseCallback s = (Inr (PromiseInstance (Native 7)), [], s)"

definition thenableCallback :: "State \<Rightarrow> (string js_result, string) outcome" where
  "thenableCallback s = (Inr (Thenable 7), [], s)"


section \<open>Properties\<close>

subsection \<open>The registry and the projections\<close>

lemma setValues_emptySet [simp]: "setValues emptySet = []"
  by transfer simp

lemma setValues_setAdd [simp]:
  "setValues (setAdd x s) = (if x \<in> set (setValues s) then setValues s else setValues s @ [x])"
  by transfer simp

lemma setValues_setDelete [simp]:
  "setValues (setDelete x s) = filter (\<lambda>y. y \<noteq> x) (setValues s)"
  by transfer simp

lemma distinct_setValues [simp]: "distinct (setValues s)"
  by transfer simp



lemma hookCalls_simps [simp]:
  "hookCalls [] = []"
  "hookCalls (HookCall h l m # evs) = (h, l, m) # hookCalls evs"
  "hookCalls (ConsoleWarn msg e # evs) = hookCalls evs"
  "hookCalls (ConsoleLog p st as # evs) = hookCalls evs"
  "hookCalls (ConsoleGroupCollapsed t st' # evs) = hookCalls evs"
  "hookCalls (ConsoleGroupEnd # evs) = hookCalls evs"
  "hookCalls (CallbackRun cevs # evs) = hookCalls evs"
  by (simp_all add: hookCalls_def)

lemma hookCalls_append [simp]: "hookCalls (xs @ ys) = hookCalls xs @ hookCalls ys"
  by (simp add: hookCalls_def List.map_filter_def)

lemma warnings_simps [simp]:
  "warnings [] = []"
  "warnings (HookCall h l m # evs) = warnings evs"
  "warnings (ConsoleWarn msg e # evs) = e # warnings evs"
  "warnings (ConsoleLog p st as # evs) = warnings evs"
  "warnings (ConsoleGroupCollapsed t st' # evs) = warnings evs"
  "warnings (ConsoleGroupEnd # evs) = warnings evs"
  "warnings (CallbackRun cevs # evs) = warnings evs"
  by (simp_all add: warnings_def)

lemma warnings_append [simp]: "warnings (xs @ ys) = warnings xs @ warnings ys"
  by (simp add: warnings_def List.map_filter_def)

lemma toUpperCase_keys [simp]:
  "toUpperCase ''debug'' = ''DEBUG''"
  "toUpperCase ''log'' = ''LOG''"
  "toUpperCase ''info'' = ''INFO''"
  "toUpperCase ''warn'' = ''WARN''"
  "toUpperCase ''error'' = ''ERROR''"
  "toUpperCase ''success'' = ''SUCCESS''"
  by code_simp+

subsection \<open>The loop over the hooks\<close>

lemma tryHook_hookEvents:
  "tryHook env L lvl as h s =
     (Inr (), hookEvents env L lvl as h (clock s), s\<lparr>clock := Suc (clock s)\<rparr>)"
  by (simp add: tryHook_def newDate_def callHook_def hookEvents_def Let_def
        split: option.splits)

lemma forEachHook_Cons:
  "forEachHook env L lvl as (h # hs) s =
     (fst (forEachHook env L lvl as hs (s\<lparr>clock := Suc (clock s)\<rparr>)),
      hookEvents env L lvl as h (clock s)
        @ fst (snd (forEachHook env L lvl as hs (s\<lparr>clock := Suc (clock s)\<rparr>))),
      snd (snd (forEachHook env L lvl as hs (s\<lparr>clock := Suc (clock s)\<rparr>))))"
  by (simp add: tryHook_hookEvents split: prod.splits)



lemma no_print_hookEvents: "filter isConsoleLog (hookEvents env L lvl as h n) = []"
  by (simp add: hookEvents_def Let_def split: option.splits)

lemma forEachHook_returns: "fst (forEachHook env L lvl as hs s) = Inr ()"
  by (induction hs arbitrary: s) (simp_all add: forEachHook_Cons del: forEachHook.simps(2))

lemma forEachHook_state:
  "snd (snd (forEachHook env L lvl as hs s)) = s\<lparr>clock := clock s + length hs\<rparr>"
  by (induction hs arbitrary: s) (simp_all add: forEachHook_Cons del: forEachHook.simps(2))



lemma forEachHook_no_print:
  "filter isConsoleLog (fst (snd (forEachHook env L lvl as hs s))) = []"
  by (induction hs arbitrary: s)
     (simp_all add: forEachHook_Cons no_print_hookEvents del: forEachHook.simps(2))


subsection \<open>Emitting\<close>

lemma timestampPart_state:
  "snd (timestampPart env b s) = s\<lparr>clock := clock s + (if b then 1 else 0)\<rparr>"
  by (simp add: timestampPart_def getTimestamp_def newDate_def)

lemma printStyledLog_eq:
  "printStyledLog env lvl style showTs ns as s =
     (Inr (),
      [ConsoleLog (''%c'' @ join '' '' (fst (timestampPart env showTs s) @ namespacePart ns
                     @ [bracket (toUpperCase (levelKey lvl))])) style as],
      snd (timestampPart env showTs s))"
  by (simp add: printStyledLog_def split: prod.splits)

lemma emit_open:
  assumes "isEnabled s" and "c_minLevel L \<le> LOG_LEVELS lvl"
  shows "emit env L lvl as s =
     (Inr (),
      ConsoleLog (''%c'' @ join '' '' (fst (timestampPart env (c_showTimestamp L) s)
                     @ namespacePart (c_namespace L) @ [bracket (toUpperCase (levelKey lvl))]))
          (c_mergedStyles L lvl) as
        # fst (snd (forEachHook env L lvl as (setValues (hooks s))
                      (snd (timestampPart env (c_showTimestamp L) s)))),
      snd (snd (forEachHook env L lvl as (setValues (hooks s))
                      (snd (timestampPart env (c_showTimestamp L) s)))))"
proof -
  have gate: "\<not> (\<not> isEnabled s \<or> LOG_LEVELS lvl < c_minLevel L)"
    using assms by simp
  have same: "hooks (snd (timestampPart env (c_showTimestamp L) s)) = hooks s"
    by (simp add: timestampPart_state)
  obtain r evs s2 where run:
    "forEachHook env L lvl as (setValues (hooks s)) (snd (timestampPart env (c_showTimestamp L) s))
       = (r, evs, s2)"
    by (cases "forEachHook env L lvl as (setValues (hooks s))
                 (snd (timestampPart env (c_showTimestamp L) s))") auto
  have "r = Inr ()"
    using forEachHook_returns [of env L lvl as "setValues (hooks s)"
        "snd (timestampPart env (c_showTimestamp L) s)"] run by simp
  then show ?thesis
    using gate same run by (simp add: emit_def printStyledLog_eq)
qed

lemma emitFunction_eq: "emitFunction lvl env L as s = emit env L lvl as s"
  by (cases lvl) (simp_all add: debug_def log_def info_def warn_def error_def success_def)

declare emitFunction.simps [simp del]

subsection \<open>The concrete run, evaluated\<close>

lemma exampleLogger_eq:
  "exampleLogger = \<lparr>c_showTimestamp = True, c_namespace = Some ''app'',
      c_mergedStyles = DEFAULT_STYLES ++ [Error \<mapsto> ''color: red;''], c_minLevel = 2\<rparr>"
  by (simp add: exampleLogger_def createLogger_def exampleOptions_def mergeStyles_def
        lookupRank_def levelOfKey_def allLevels_def)

lemma exampleState_eq:
  "isEnabled exampleState \<and> setValues (hooks exampleState) = [0, 1, 2]
     \<and> clock exampleState = 0"
  by (simp add: exampleState_def createLogger_def onLog_def)


subsection \<open>Claims about emitting\<close>



text \<open>
  C2. For every level: when the logger is disabled, or the rank of the level is
  strictly below the minimum rank, the emit function of that level does nothing: no
  console call, no hook call, and the state is as it was.
\<close>

theorem emit_filtered:
  assumes "\<not> isEnabled s \<or> LOG_LEVELS lvl < c_minLevel L"
  shows "emitFunction lvl env L as s = (Inr (), [], s)"
  using assms by (simp add: emitFunction_eq emit_def)

theorem emit_filtered_witness:
  "emitFunction Log exampleEnv exampleLogger [''quiet''] exampleState
     = (Inr (), [], exampleState)
   \<and> emitFunction Error exampleEnv exampleLogger [''off''] (setEnabled False exampleState)
     = (Inr (), [], setEnabled False exampleState)"
proof -
  have below: "\<not> isEnabled exampleState \<or> LOG_LEVELS Log < c_minLevel exampleLogger"
    by (simp add: exampleLogger_eq)
  have off: "\<not> isEnabled (setEnabled False exampleState)
               \<or> LOG_LEVELS Error < c_minLevel exampleLogger"
    by (simp add: setEnabled_def)
  show ?thesis
    using emit_filtered [OF below, of exampleEnv "[''quiet'']"]
      emit_filtered [OF off, of exampleEnv "[''off'']"]
    by simp
qed



subsection \<open>Groups\<close>

lemma groupTitle_state:
  "snd (groupTitle env L title s) = s\<lparr>clock := clock s + (if c_showTimestamp L then 1 else 0)\<rparr>"
  by (simp add: groupTitle_def timestampPart_def getTimestamp_def newDate_def)

lemma groupTitle_header:
  "fst (groupTitle env L title s) =
     ''%c'' @ join '' '' (fst (timestampPart env (c_showTimestamp L) s)
                           @ namespacePart (c_namespace L) @ [''[GROUP] '' @ title])"
  by (simp add: groupTitle_def split: prod.splits)

lemma logger_group_eq:
  assumes "callback (snd (groupTitle env L title s)) = (c, cevs, s2)"
  shows "logger_group env L title callback s =
     (case c of
        Inl err \<Rightarrow>
          (Inl err,
           (if shouldRender L s
            then [ConsoleGroupCollapsed (fst (groupTitle env L title s))
                    ''font-weight: bold; color: #888;''] else [])
             @ [CallbackRun cevs] @ groupEndIf (shouldRender L s), s2)
      | Inr (PromiseInstance p) \<Rightarrow>
          (Inr (PromiseInstance (Finally p (groupEndIf (shouldRender L s)))),
           (if shouldRender L s
            then [ConsoleGroupCollapsed (fst (groupTitle env L title s))
                    ''font-weight: bold; color: #888;''] else [])
             @ [CallbackRun cevs], s2)
      | Inr result \<Rightarrow>
          (Inr result,
           (if shouldRender L s
            then [ConsoleGroupCollapsed (fst (groupTitle env L title s))
                    ''font-weight: bold; color: #888;''] else [])
             @ [CallbackRun cevs] @ groupEndIf (shouldRender L s), s2))"
  using assms
  by (cases "groupTitle env L title s")
     (simp add: logger_group_def Let_def split: sum.splits js_result.splits)

subsection \<open>More about the registry and the console output\<close>



lemma emit_prints:
  "filter isConsoleLog (fst (snd (emit env L lvl as s))) =
     (if isEnabled s \<and> c_minLevel L \<le> LOG_LEVELS lvl
      then [ConsoleLog (''%c'' @ join '' '' (fst (timestampPart env (c_showTimestamp L) s)
                          @ namespacePart (c_namespace L)
                          @ [bracket (toUpperCase (levelKey lvl))]))
              (c_mergedStyles L lvl) as]
      else [])"
proof (cases "isEnabled s \<and> c_minLevel L \<le> LOG_LEVELS lvl")
  case True
  then show ?thesis
    using emit_open [of s L lvl env as] by (simp add: forEachHook_no_print)
next
  case False
  then show ?thesis
    by (auto simp add: emit_def)
qed

lemma console_output_cong:
  assumes "namespacePart (c_namespace L) = namespacePart (c_namespace L')"
    and "c_showTimestamp L = c_showTimestamp L'" and "c_minLevel L = c_minLevel L'"
    and "c_mergedStyles L = c_mergedStyles L'"
  shows "filter isConsoleLog (fst (snd (emit env L lvl as s)))
           = filter isConsoleLog (fst (snd (emit env L' lvl as s)))"
    and "groupTitle env L title s = groupTitle env L' title s"
  using assms by (simp_all add: emit_prints groupTitle_def)

subsection \<open>Concrete group calls, evaluated\<close>

lemmas run_defs =
  emitFunction_eq emit_def printStyledLog_def timestampPart_def getTimestamp_def newDate_def
  tryHook_def callHook_def bracket_def DEFAULT_STYLES_def groupTitle_def logger_group_def
  shouldRender_def groupEndIf_def setEnabled_def error_def

lemma defaultLogger_eq:
  "defaultLogger = \<lparr>c_showTimestamp = False, c_namespace = None,
      c_mergedStyles = DEFAULT_STYLES, c_minLevel = 0\<rparr>"
  by (simp add: defaultLogger_def createLogger_def defaultOptions_def mergeStyles_def
        lookupRank_def levelOfKey_def allLevels_def)

lemma defaultState_eq: "defaultState = \<lparr>isEnabled = True, hooks = emptySet, clock = 0\<rparr>"
  by (simp add: defaultState_def createLogger_def defaultOptions_def)

lemma example_group_open:
  "logger_group exampleEnv defaultLogger ''T'' (failingCallback defaultLogger) defaultState =
     (Inl ''fail'',
      [ConsoleGroupCollapsed ''%c[GROUP] T'' ''font-weight: bold; color: #888;'',
       CallbackRun [ConsoleLog ''%c[ERROR]'' (Some ''color: #ff5555; font-weight: bold;'')
                      [''inside'']],
       ConsoleGroupEnd],
      \<lparr>isEnabled = False, hooks = emptySet, clock = 0\<rparr>)"
  by (simp add: run_defs failingCallback_def defaultLogger_eq defaultState_eq exampleEnv_def)

lemma example_group_hidden:
  "logger_group exampleEnv exampleLogger ''T'' (failingCallback exampleLogger) exampleState =
     (Inl ''fail'',
      [CallbackRun
         [ConsoleLog ''%c[12:00:00] [app] [ERROR]'' (Some ''color: red;'') [''inside''],
          HookCall 0 Error
            \<lparr>timestamp = 2000, namespace = Some ''app'', level = Error, args = [''inside'']\<rparr>,
          HookCall 1 Error
            \<lparr>timestamp = 3000, namespace = Some ''app'', level = Error, args = [''inside'']\<rparr>,
          ConsoleWarn ''[Logger] Hook error:'' ''boom'',
          HookCall 2 Error
            \<lparr>timestamp = 4000, namespace = Some ''app'', level = Error, args = [''inside'']\<rparr>]],
      exampleState\<lparr>isEnabled := False, clock := 5\<rparr>)"
  using exampleState_eq
  by (simp add: run_defs failingCallback_def exampleLogger_eq exampleEnv_def)

lemma example_group_promise:
  "logger_group exampleEnv defaultLogger ''T'' promiseCallback defaultState =
     (Inr (PromiseInstance (Finally (Native 7) [ConsoleGroupEnd])),
      [ConsoleGroupCollapsed ''%c[GROUP] T'' ''font-weight: bold; color: #888;'',
       CallbackRun []],
      defaultState)"
  by (simp add: run_defs promiseCallback_def defaultLogger_eq defaultState_eq)

subsection \<open>Claims about groups\<close>

text \<open>
  C4. Every call of \<open>group\<close> invokes its callback exactly once, whether or not the
  decoration is rendered: among the events of the call there is one callback run, the
  run of the callback on the state the logger has when the title is composed, and the
  state the call leaves is the state that run leaves. No condition on the enabled
  flag or on the minimum level is needed.
\<close>

theorem group_runs_callback_once:
  "filter isCallbackRun (fst (snd (logger_group env L title callback s)))
     = [CallbackRun (fst (snd (callback
          (s\<lparr>clock := clock s + (if c_showTimestamp L then 1 else 0)\<rparr>))))]
   \<and> snd (snd (logger_group env L title callback s))
     = snd (snd (callback (s\<lparr>clock := clock s + (if c_showTimestamp L then 1 else 0)\<rparr>)))"
proof -
  obtain c cevs s2 where run: "callback (snd (groupTitle env L title s)) = (c, cevs, s2)"
    by (cases "callback (snd (groupTitle env L title s))") auto
  have at: "callback (s\<lparr>clock := clock s + (if c_showTimestamp L then 1 else 0)\<rparr>) = (c, cevs, s2)"
    using run by (simp add: groupTitle_state)
  show ?thesis
    by (simp add: logger_group_eq [where callback = callback, OF run] at groupEndIf_def split: sum.splits js_result.splits)
qed

theorem group_runs_callback_once_witness:
  "shouldRender defaultLogger defaultState
   \<and> length (filter isCallbackRun (fst (snd
        (logger_group exampleEnv defaultLogger ''T'' (failingCallback defaultLogger)
           defaultState)))) = 1
   \<and> \<not> shouldRender exampleLogger exampleState
   \<and> length (filter isCallbackRun (fst (snd
        (logger_group exampleEnv exampleLogger ''T'' (failingCallback exampleLogger)
           exampleState)))) = 1"
  using group_runs_callback_once [of exampleEnv defaultLogger "''T''"
      "failingCallback defaultLogger" defaultState]
    group_runs_callback_once [of exampleEnv exampleLogger "''T''"
      "failingCallback exampleLogger" exampleState]
  by (simp add: shouldRender_def defaultLogger_eq defaultState_eq exampleLogger_eq)

text \<open>
  C5, as stated, fails. The callback returns a thenable for the pending computation 7,
  a promise-like value that is not an instance of \<open>Promise\<close>. The test
  \<open>result instanceof Promise\<close> is false, so \<open>group\<close> calls \<open>console.groupEnd\<close> before it
  returns, while the computation is pending, and returns the thenable with no
  function attached to it.
\<close>

theorem group_thenable_closes_early:
  "isDeferred (Thenable 7 :: string js_result)
   \<and> \<not> instanceofPromise (Thenable 7 :: string js_result)
   \<and> thenableCallback defaultState = (Inr (Thenable 7), [], defaultState)
   \<and> logger_group exampleEnv defaultLogger ''T'' thenableCallback defaultState =
       (Inr (Thenable 7),
        [ConsoleGroupCollapsed ''%c[GROUP] T'' ''font-weight: bold; color: #888;'',
         CallbackRun [],
         ConsoleGroupEnd],
        defaultState)"
  by (simp add: run_defs thenableCallback_def defaultLogger_eq defaultState_eq)

text \<open>
  C5, amended. When the callback returns an instance of \<open>Promise\<close>, \<open>group\<close> returns
  that promise's \<open>finally\<close> promise and makes no \<open>console.groupEnd\<close> call before it
  returns. Whatever outcome the computation settles with, fulfilled or rejected, the
  returned promise settles with the same outcome, and the \<open>console.groupEnd\<close> call,
  made if and only if the decoration was opened, comes at that settlement, after the
  reactions registered before it.
\<close>

theorem group_promise_closes_on_settlement:
  assumes "callback (snd (groupTitle env L title s)) = (Inr (PromiseInstance p), cevs, s2)"
  shows "fst (logger_group env L title callback s)
           = Inr (PromiseInstance (Finally p (groupEndIf (shouldRender L s))))
       \<and> filter isGroupEnd (fst (snd (logger_group env L title callback s))) = []
       \<and> snd (settle (Finally p (groupEndIf (shouldRender L s))) out) = snd (settle p out)
       \<and> fst (settle (Finally p (groupEndIf (shouldRender L s))) out)
           = fst (settle p out) @ (if shouldRender L s then [ConsoleGroupEnd] else [])"
  by (simp add: logger_group_eq [where callback = callback, OF assms] groupEndIf_def split: prod.splits)

theorem group_promise_closes_on_settlement_witness:
  "fst (logger_group exampleEnv defaultLogger ''T'' promiseCallback defaultState)
     = Inr (PromiseInstance (Finally (Native 7) [ConsoleGroupEnd]))
   \<and> filter isGroupEnd
       (fst (snd (logger_group exampleEnv defaultLogger ''T'' promiseCallback defaultState))) = []
   \<and> settle (Finally (Native 7) [ConsoleGroupEnd]) (Rejected ''no'')
     = ([ConsoleGroupEnd :: string event], Rejected ''no'')"
proof -
  have returned: "promiseCallback (snd (groupTitle exampleEnv defaultLogger ''T'' defaultState))
                    = (Inr (PromiseInstance (Native 7)), [],
                       snd (groupTitle exampleEnv defaultLogger ''T'' defaultState))"
    by (simp add: promiseCallback_def)
  have render: "shouldRender defaultLogger defaultState"
    by (simp add: shouldRender_def defaultLogger_eq defaultState_eq)
  show ?thesis
    using group_promise_closes_on_settlement
            [where callback = promiseCallback and out = "Rejected ''no''", OF returned] render
    by (simp add: groupEndIf_def)
qed

text \<open>
  C6. When the callback throws, \<open>group\<close> throws the same value, and the events of the
  call are, if the decoration was opened, the opening, the callback run and the
  closing \<open>console.groupEnd\<close>, in this order, and the callback run alone otherwise:
  the group is closed before the error leaves the call.
\<close>

theorem group_rethrows_after_close:
  assumes "callback (snd (groupTitle env L title s)) = (Inl err, cevs, s2)"
  shows "logger_group env L title callback s =
     (Inl err,
      (if shouldRender L s
       then [ConsoleGroupCollapsed (fst (groupTitle env L title s))
               ''font-weight: bold; color: #888;'',
             CallbackRun cevs, ConsoleGroupEnd]
       else [CallbackRun cevs]),
      s2)"
  by (simp add: logger_group_eq [where callback = callback, OF assms] groupEndIf_def)

theorem group_rethrows_after_close_witness:
  "shouldRender defaultLogger defaultState
   \<and> logger_group exampleEnv defaultLogger ''T'' (failingCallback defaultLogger) defaultState =
       (Inl ''fail'',
        [ConsoleGroupCollapsed ''%c[GROUP] T'' ''font-weight: bold; color: #888;'',
         CallbackRun [ConsoleLog ''%c[ERROR]'' (Some ''color: #ff5555; font-weight: bold;'')
                        [''inside'']],
         ConsoleGroupEnd],
        \<lparr>isEnabled = False, hooks = emptySet, clock = 0\<rparr>)"
proof -
  have thrown: "failingCallback defaultLogger
                  (snd (groupTitle exampleEnv defaultLogger ''T'' defaultState))
                = (Inl ''fail'',
                   [ConsoleLog ''%c[ERROR]'' (Some ''color: #ff5555; font-weight: bold;'')
                      [''inside'']],
                   \<lparr>isEnabled = False, hooks = emptySet, clock = 0\<rparr>)"
    by (simp add: run_defs failingCallback_def defaultLogger_eq defaultState_eq exampleEnv_def)
  have render: "shouldRender defaultLogger defaultState"
    by (simp add: shouldRender_def defaultLogger_eq defaultState_eq)
  have title: "fst (groupTitle exampleEnv defaultLogger ''T'' defaultState) = ''%c[GROUP] T''"
    by (simp add: run_defs defaultLogger_eq)
  show ?thesis
    using group_rethrows_after_close
            [where callback = "failingCallback defaultLogger", OF thrown] render title
    by simp
qed

text \<open>
  C7. The decoration of a group call is opened if and only if, in the state the call
  starts in, the logger is enabled and the minimum rank is at most the rank of
  \<open>log\<close>, which is 1; whatever the callback does, also when it emits at other levels
  or toggles the logger, the close calls follow the same condition on the same state.
\<close>

theorem group_gate:
  assumes "logger_group env L title callback s = (r, evs, s')"
  shows "filter isGroupCollapsed evs
           = (if isEnabled s \<and> c_minLevel L \<le> LOG_LEVELS Log
              then [ConsoleGroupCollapsed (fst (groupTitle env L title s))
                      ''font-weight: bold; color: #888;'']
              else [])
       \<and> closeCalls r evs
           = (if isEnabled s \<and> c_minLevel L \<le> LOG_LEVELS Log then [ConsoleGroupEnd] else [])
       \<and> LOG_LEVELS Log = 1"
proof -
  obtain c cevs s2 where run: "callback (snd (groupTitle env L title s)) = (c, cevs, s2)"
    by (cases "callback (snd (groupTitle env L title s))") auto
  show ?thesis
    using assms
    by (auto simp add: logger_group_eq [where callback = callback, OF run] groupEndIf_def shouldRender_def closeCalls_def
          split: sum.splits js_result.splits)
qed

theorem group_gate_witness:
  "filter isGroupCollapsed (fst (snd
      (logger_group exampleEnv exampleLogger ''T'' (failingCallback exampleLogger) exampleState)))
     = []
   \<and> c_minLevel exampleLogger = 2
   \<and> filter isGroupCollapsed (fst (snd
      (logger_group exampleEnv defaultLogger ''T'' (failingCallback defaultLogger) defaultState)))
     = [ConsoleGroupCollapsed ''%c[GROUP] T'' ''font-weight: bold; color: #888;'']
   \<and> closeCalls
       (fst (logger_group exampleEnv defaultLogger ''T'' (failingCallback defaultLogger)
               defaultState))
       (fst (snd (logger_group exampleEnv defaultLogger ''T'' (failingCallback defaultLogger)
               defaultState)))
     = [ConsoleGroupEnd]"
proof -
  have rank: "c_minLevel exampleLogger = 2"
    by (simp add: exampleLogger_eq)
  show ?thesis
    using group_gate [OF example_group_hidden] group_gate [OF example_group_open] rank
    by (simp add: example_group_hidden example_group_open closeCalls_def)
qed

subsection \<open>Claims about the factory and the registry\<close>





text \<open>
  C10. For a logger created with the empty string as namespace, the prefix of an emit
  call is the timestamp segment, if any, and the level tag, and the title of a group
  is the timestamp segment, if any, and the group tag with the title: no namespace
  segment. Both are what the logger created with no namespace prints.
\<close>

theorem empty_namespace_ignored:
  assumes "o_namespace options = Some ''''"
  shows "filter isConsoleLog (fst (snd (emitFunction lvl env (fst (createLogger options clk)) as s)))
           = (if isEnabled s \<and> c_minLevel (fst (createLogger options clk)) \<le> LOG_LEVELS lvl
              then [ConsoleLog
                      (''%c'' @ join '' ''
                         (fst (timestampPart env (c_showTimestamp (fst (createLogger options clk))) s)
                            @ [bracket (toUpperCase (levelKey lvl))]))
                      (c_mergedStyles (fst (createLogger options clk)) lvl) as]
              else [])
       \<and> fst (groupTitle env (fst (createLogger options clk)) title s)
           = ''%c'' @ join '' ''
               (fst (timestampPart env (c_showTimestamp (fst (createLogger options clk))) s)
                  @ [''[GROUP] '' @ title])
       \<and> filter isConsoleLog (fst (snd (emitFunction lvl env (fst (createLogger options clk)) as s)))
           = filter isConsoleLog
               (fst (snd (emitFunction lvl env
                  (fst (createLogger (options\<lparr>o_namespace := None\<rparr>) clk)) as s)))
       \<and> groupTitle env (fst (createLogger options clk)) title s
           = groupTitle env (fst (createLogger (options\<lparr>o_namespace := None\<rparr>) clk)) title s"
proof -
  define L where "L = fst (createLogger options clk)"
  define L0 where "L0 = fst (createLogger (options\<lparr>o_namespace := None\<rparr>) clk)"
  have ns: "namespacePart (c_namespace L) = []"
    using assms by (simp add: L_def createLogger_def Let_def)
  have ns0: "namespacePart (c_namespace L0) = []"
    by (simp add: L0_def createLogger_def Let_def)
  have same: "c_showTimestamp L = c_showTimestamp L0" "c_minLevel L = c_minLevel L0"
    "c_mergedStyles L = c_mergedStyles L0"
    by (simp_all add: L_def L0_def createLogger_def Let_def)
  have print: "filter isConsoleLog (fst (snd (emitFunction lvl env L as s)))
           = (if isEnabled s \<and> c_minLevel L \<le> LOG_LEVELS lvl
              then [ConsoleLog
                      (''%c'' @ join '' ''
                         (fst (timestampPart env (c_showTimestamp L) s)
                            @ [bracket (toUpperCase (levelKey lvl))]))
                      (c_mergedStyles L lvl) as]
              else [])"
    by (simp add: emitFunction_eq emit_prints ns)
  have title: "fst (groupTitle env L title s)
           = ''%c'' @ join '' '' (fst (timestampPart env (c_showTimestamp L) s)
                                   @ [''[GROUP] '' @ title])"
    by (simp add: groupTitle_header ns)
  have print0: "filter isConsoleLog (fst (snd (emitFunction lvl env L as s)))
                  = filter isConsoleLog (fst (snd (emitFunction lvl env L0 as s)))"
    using console_output_cong(1) [of L L0 env lvl as s] ns ns0 same
    by (simp add: emitFunction_eq)
  have title0: "groupTitle env L title s = groupTitle env L0 title s"
    using console_output_cong(2) [of L L0 env title s] ns ns0 same by simp
  from print title print0 title0 show ?thesis
    unfolding L_def L0_def by blast
qed

theorem empty_namespace_ignored_witness:
  "fst (groupTitle exampleEnv
          (fst (createLogger (exampleOptions\<lparr>o_namespace := Some ''''\<rparr>) 0)) ''T'' exampleState)
     = ''%c[12:00:00] [GROUP] T''
   \<and> filter isConsoleLog (fst (snd
        (emitFunction Warn exampleEnv
           (fst (createLogger (exampleOptions\<lparr>o_namespace := Some ''''\<rparr>) 0))
           [''disk''] exampleState)))
     = [ConsoleLog ''%c[12:00:00] [WARN]'' (Some ''color: #f1fa8c; font-weight: bold;'')
          [''disk'']]"
proof -
  have empty: "o_namespace (exampleOptions\<lparr>o_namespace := Some ''''\<rparr>) = Some ''''"
    by simp
  have logger: "fst (createLogger (exampleOptions\<lparr>o_namespace := Some ''''\<rparr>) 0)
                  = exampleLogger\<lparr>c_namespace := Some ''''\<rparr>"
    by (simp add: exampleLogger_def createLogger_def exampleOptions_def)
  note inst =
    empty_namespace_ignored [OF empty, of Warn exampleEnv 0 "[''disk'']" exampleState "''T''"]
  show ?thesis
    using inst [THEN conjunct1] inst [THEN conjunct2, THEN conjunct1] exampleState_eq
    by (simp add: logger exampleLogger_eq timestampPart_def getTimestamp_def newDate_def
          bracket_def exampleEnv_def DEFAULT_STYLES_def)
qed

end
